theory Spec2Isabelle
  imports Main "HOL-Library.Word"
begin

section \<open>Errors and process outcomes\<close>

text \<open>
  Go error values as they are built in the sources: \<open>errors.New\<close>, \<open>errors.Errorf\<close>
  (with the message already rendered) and \<open>errors.WithMessage\<close>, which wraps a cause.
  Errors that come from outside (the client factory, the database driver) are arbitrary
  values of this type.
\<close>

datatype error =
    ErrorsNew string
  | ErrorsErrorf string
  | WithMessage error string

definition ErrClientUnavailable :: error where
  "ErrClientUnavailable = ErrorsNew ''no full node available''"

section \<open>The client provider (package node)\<close>

text \<open>
  \<open>Group\<close> is declared outside the shown source; it is a string-kinded identifier, so
  \<open>%v\<close> prints it as itself.
\<close>

type_synonym Group = string

text \<open>
  The provider struct: \<open>router\<close>, \<open>factory\<close> and the map \<open>clients\<close> from a group to a
  pointer to its \<open>util.ConcurrentMap\<close>. The router and the factory are calls into code
  outside the provider, so both read and may change an outside world \<open>'w\<close>. The mutex is
  left out: the model runs one call at a time.
\<close>

record ('w, 'c) clientProvider =
  router :: "Group \<Rightarrow> string \<Rightarrow> 'w \<Rightarrow> string \<times> 'w"
  factory :: "string \<Rightarrow> 'w \<Rightarrow> (error + 'c) \<times> 'w"
  clients :: "Group \<rightharpoonup> nat"

text \<open>
  What lives outside the struct: the store of allocated \<open>ConcurrentMap\<close> objects (an
  address is a natural number, \<open>next_addr\<close> the next free one), the outside world, and a
  log of the calls made to the router and to the factory. The log is not in the source;
  it is there to count invocations.
\<close>

datatype event = RouteCall Group string | FactoryCall string

record ('w, 'c) runtime =
  heap :: "nat \<Rightarrow> (string \<rightharpoonup> 'c)"
  next_addr :: nat
  world :: 'w
  trace :: "event list"

definition factory_calls :: "event list \<Rightarrow> string list" where
  "factory_calls tr = concat (map (\<lambda>e. case e of FactoryCall u \<Rightarrow> [u] | RouteCall g k \<Rightarrow> []) tr)"

definition route_calls :: "event list \<Rightarrow> (Group \<times> string) list" where
  "route_calls tr = concat (map (\<lambda>e. case e of RouteCall g k \<Rightarrow> [(g, k)] | FactoryCall u \<Rightarrow> []) tr)"

definition newClientProvider ::
  "(Group \<Rightarrow> string \<Rightarrow> 'w \<Rightarrow> string \<times> 'w) \<Rightarrow> (string \<Rightarrow> 'w \<Rightarrow> (error + 'c) \<times> 'w)
    \<Rightarrow> ('w, 'c) clientProvider" where
  "newClientProvider r f = \<lparr>router = r, factory = f, clients = Map.empty\<rparr>"

text \<open>
  \<open>registerGroup\<close>: the unlocked check, the check again under the lock, the store of a
  fresh empty \<open>ConcurrentMap\<close>, and the final read \<open>p.clients[group]\<close>. The last
  component of the \<open>case\<close> cannot be reached: the entry is there after the block.
\<close>

definition registerGroup ::
  "Group \<Rightarrow> ('w, 'c) clientProvider \<times> ('w, 'c) runtime
    \<Rightarrow> nat \<times> ('w, 'c) clientProvider \<times> ('w, 'c) runtime" where
  "registerGroup grp s =
     (let (p, rt) = s;
          (p1, rt1) =
            (if clients p grp = None then
               (if clients p grp = None then
                  (p\<lparr>clients := (clients p)(grp \<mapsto> next_addr rt)\<rparr>,
                   rt\<lparr>heap := (heap rt)(next_addr rt := Map.empty),
                      next_addr := Suc (next_addr rt)\<rparr>)
                else (p, rt))
             else (p, rt))
      in (case clients p1 grp of Some a \<Rightarrow> (a, p1, rt1) | None \<Rightarrow> (0, p1, rt1)))"

text \<open>
  Modelled from the spec: \<open>ConcurrentMap.LoadOrStoreFnErr\<close> of package util, which is
  not among the sources. By the spec it loads the value cached under the key, or else
  runs the creation function once and stores what it made; a failed creation stores
  nothing, so that a later call tries again. The result is the error, or the value with
  the flag \<open>loaded\<close>.
\<close>

definition LoadOrStoreFnErr ::
  "nat \<Rightarrow> string \<Rightarrow> (string \<Rightarrow> ('w, 'c) runtime \<Rightarrow> (error + 'c) \<times> ('w, 'c) runtime)
    \<Rightarrow> ('w, 'c) runtime \<Rightarrow> (error + 'c \<times> bool) \<times> ('w, 'c) runtime" where
  "LoadOrStoreFnErr a key fn rt =
     (case heap rt a key of
        Some v \<Rightarrow> (Inr (v, True), rt)
      | None \<Rightarrow>
          (case fn key rt of
             (Inl e, rt') \<Rightarrow> (Inl e, rt')
           | (Inr v, rt') \<Rightarrow>
               (Inr (v, False), rt'\<lparr>heap := (heap rt')(a := (heap rt' a)(key \<mapsto> v))\<rparr>)))"

text \<open>The call \<open>p.router.Route(group, []byte(key))\<close>, logged.\<close>

definition call_route ::
  "('w, 'c) clientProvider \<Rightarrow> Group \<Rightarrow> string \<Rightarrow> ('w, 'c) runtime \<Rightarrow> string \<times> ('w, 'c) runtime" where
  "call_route p grp key rt =
     (let (url, w) = router p grp key (world rt)
      in (url, rt\<lparr>world := w, trace := trace rt @ [RouteCall grp key]\<rparr>))"

text \<open>The call \<open>p.factory(url)\<close> of the closure handed to \<open>LoadOrStoreFnErr\<close>, logged.\<close>

definition call_factory ::
  "('w, 'c) clientProvider \<Rightarrow> string \<Rightarrow> ('w, 'c) runtime \<Rightarrow> (error + 'c) \<times> ('w, 'c) runtime" where
  "call_factory p url rt =
     (let (r, w) = factory p url (world rt)
      in (r, rt\<lparr>world := w, trace := trace rt @ [FactoryCall url]\<rparr>))"

text \<open>
  \<open>getClient\<close>. \<open>rpc.Url2NodeName\<close> is outside the shown source and is a parameter
  (a pure function of the URL). Go's result pair is a sum: \<open>(nil, err)\<close> is \<open>Inl err\<close>,
  \<open>(client, nil)\<close> is \<open>Inr client\<close>. Logging is left out.
\<close>

definition getClient ::
  "(string \<Rightarrow> string) \<Rightarrow> string \<Rightarrow> Group \<Rightarrow> ('w, 'c) clientProvider \<times> ('w, 'c) runtime
    \<Rightarrow> (error + 'c) \<times> ('w, 'c) clientProvider \<times> ('w, 'c) runtime" where
  "getClient Url2NodeName key grp s =
     (let (p, rt) = s in
      case clients p grp of
        None \<Rightarrow> (Inl (ErrorsErrorf (''Unknown node group '' @ grp)), p, rt)
      | Some cm \<Rightarrow>
          (let (url, rt1) = call_route p grp key rt in
           if length url = 0 then (Inl ErrClientUnavailable, p, rt1)
           else
             (let nodeName = Url2NodeName url;
                  (res, rt2) = LoadOrStoreFnErr cm nodeName (\<lambda>_. call_factory p url) rt1
              in case res of
                   Inl err \<Rightarrow> (Inl (WithMessage err ''bad full node connection''), p, rt2)
                 | Inr (client, loaded) \<Rightarrow> (Inr client, p, rt2))))"

text \<open>Histories of calls on one provider.\<close>

datatype op = RegisterGroup Group | GetClient string Group

fun step ::
  "(string \<Rightarrow> string) \<Rightarrow> op \<Rightarrow> ('w, 'c) clientProvider \<times> ('w, 'c) runtime
    \<Rightarrow> ('w, 'c) clientProvider \<times> ('w, 'c) runtime" where
  "step U (RegisterGroup g) s = snd (registerGroup g s)"
| "step U (GetClient k g) s = snd (getClient U k g s)"

fun run ::
  "(string \<Rightarrow> string) \<Rightarrow> op list \<Rightarrow> ('w, 'c) clientProvider \<times> ('w, 'c) runtime
    \<Rightarrow> ('w, 'c) clientProvider \<times> ('w, 'c) runtime" where
  "run U [] s = s"
| "run U (x # xs) s = run U xs (step U x s)"

section \<open>Server assembly (package rpc)\<close>

text \<open>
  \<open>logrus ... Fatal\<close> logs its message and exits the process: a function that can reach
  it returns \<open>Fatal\<close> with that message, or \<open>Started\<close> with its result.
\<close>

datatype 'a startup = Fatal string | Started 'a

definition nativeSpaceRpcServerName :: string where
  "nativeSpaceRpcServerName = ''core_space_rpc''"

definition evmSpaceRpcServerName :: string where
  "evmSpaceRpcServerName = ''evm_space_rpc''"

definition nativeSpaceBridgeRpcServerName :: string where
  "nativeSpaceBridgeRpcServerName = ''core_space_bridge_rpc''"

text \<open>
  Modelled from the spec: the API module descriptor, declared outside the shown source:
  a module name, a handler object, and the mark of being publicly exposable.
\<close>

record 'h API =
  Namespace :: string
  Service :: 'h
  Public :: bool

text \<open>
  Modelled from the spec: \<open>filterExposedApis\<close>, which is not among the sources. By the
  spec, with a non-empty allow-list it keeps the modules whose name is in the list, and
  fails when the list names a module that does not exist; with an empty list it keeps
  the modules marked public. The text of its error is not known and is only a label.
\<close>

definition filterExposedApis :: "'h API list \<Rightarrow> string list \<Rightarrow> error + 'h API list" where
  "filterExposedApis allApis exposedModules =
     (if length exposedModules = 0 then Inr (filter Public allApis)
      else
        (case find (\<lambda>m. m \<notin> set (map Namespace allApis)) exposedModules of
           Some m \<Rightarrow> Inl (ErrorsErrorf (''unknown module '' @ m))
         | None \<Rightarrow> Inr (filter (\<lambda>a. Namespace a \<in> set exposedModules) allApis)))"

text \<open>
  The rate limit registries, the two client provider constructors of package node and
  \<open>httpMiddleware\<close> are outside the shown source; each is kept as the call that was
  made, with its arguments.
\<close>

datatype registry = DefaultRegistryCfx | DefaultRegistryEth

datatype 'r provider = NewCfxClientProvider 'r | NewEthClientProvider 'r

datatype 'r middleware = httpMiddleware registry "'r provider"

text \<open>
  Modelled from the spec: \<open>rpc.MustNewServer\<close> of package util/rpc, which is not among
  the sources: it constructs the named server from the service identifier, the exposed
  modules and the middlewares it is given.
\<close>

record ('h, 'r) Server =
  server_name :: string
  server_apis :: "'h API list"
  server_middlewares :: "'r middleware list"

definition MustNewServer ::
  "string \<Rightarrow> 'h API list \<Rightarrow> 'r middleware list \<Rightarrow> ('h, 'r) Server" where
  "MustNewServer nm exposedApis mws =
     \<lparr>server_name = nm, server_apis = exposedApis, server_middlewares = mws\<rparr>"

text \<open>
  The three assembly functions. The enumerations of all modules (\<open>nativeSpaceApis\<close>,
  \<open>evmSpaceApis\<close>, \<open>nativeSpaceBridgeApis\<close>) are outside the shown source and are
  parameters; the last two may return an error.
\<close>

definition MustNewNativeSpaceServer ::
  "('r provider \<Rightarrow> 'g \<Rightarrow> 'o list \<Rightarrow> 'h API list) \<Rightarrow> 'r \<Rightarrow> 'g \<Rightarrow> string list \<Rightarrow> 'o list
    \<Rightarrow> ('h, 'r) Server startup" where
  "MustNewNativeSpaceServer nativeSpaceApis rtr gashandler exposedModules option =
     (let clientProvider = NewCfxClientProvider rtr;
          allApis = nativeSpaceApis clientProvider gashandler option
      in case filterExposedApis allApis exposedModules of
           Inl err \<Rightarrow> Fatal ''Failed to new native space RPC server with bad exposed modules''
         | Inr exposedApis \<Rightarrow>
             (let mw = httpMiddleware DefaultRegistryCfx clientProvider
              in Started (MustNewServer nativeSpaceRpcServerName exposedApis [mw])))"

definition MustNewEvmSpaceServer ::
  "('r provider \<Rightarrow> 'o list \<Rightarrow> error + 'h API list) \<Rightarrow> 'r \<Rightarrow> string list \<Rightarrow> 'o list
    \<Rightarrow> ('h, 'r) Server startup" where
  "MustNewEvmSpaceServer evmSpaceApis rtr exposedModules option =
     (let clientProvider = NewEthClientProvider rtr
      in case evmSpaceApis clientProvider option of
           Inl err \<Rightarrow> Fatal ''Failed to new EVM space RPC server''
         | Inr allApis \<Rightarrow>
             (case filterExposedApis allApis exposedModules of
                Inl err \<Rightarrow> Fatal ''Failed to new EVM space RPC server with bad exposed modules''
              | Inr exposedApis \<Rightarrow>
                  (let mw = httpMiddleware DefaultRegistryEth clientProvider
                   in Started (MustNewServer evmSpaceRpcServerName exposedApis [mw]))))"

record CfxBridgeServerConfig =
  EthNode :: string
  CfxNode :: string
  ExposedModules :: "string list"
  Endpoint :: string

definition MustNewNativeSpaceBridgeServer ::
  "(string \<Rightarrow> string \<Rightarrow> error + 'h API list) \<Rightarrow> CfxBridgeServerConfig
    \<Rightarrow> ('h, 'r) Server startup" where
  "MustNewNativeSpaceBridgeServer nativeSpaceBridgeApis config =
     (case nativeSpaceBridgeApis (EthNode config) (CfxNode config) of
        Inl err \<Rightarrow> Fatal ''Failed to new CFX bridge RPC server''
      | Inr allApis \<Rightarrow>
          (case filterExposedApis allApis (ExposedModules config) of
             Inl err \<Rightarrow> Fatal ''Failed to new CFX bridge RPC server with bad exposed modules''
           | Inr exposedApis \<Rightarrow>
               Started (MustNewServer nativeSpaceBridgeRpcServerName exposedApis [])))"

section \<open>Opening the database (package mysql)\<close>

record Config =
  Host :: string
  Username :: string
  Password :: string
  Database :: string
  ConnMaxLifetime :: int
  MaxOpenConns :: int
  MaxIdleConns :: int

text \<open>
  A \<open>*gorm.DB\<close> handle, by what its calls return here: \<open>DB()\<close> gives the error or
  none; \<open>Raw(sql).Rows()\<close> gives the error, or whether \<open>rows.Next()\<close> finds a row;
  \<open>Exec(sql).Error\<close> and \<open>Migrator().CreateTable(...)\<close> give the error or none.
\<close>

record gormDB =
  db_DB :: "error option"
  db_Rows :: "string \<Rightarrow> error + bool"
  db_Exec :: "string \<Rightarrow> error option"
  db_CreateTable :: "error option"

text \<open>Decimal digits of an unsigned number, as \<open>%v\<close> prints it.\<close>

definition digit_char :: "nat \<Rightarrow> char" where
  "digit_char d = ''0123456789'' ! (d mod 10)"

function fmt_nat :: "nat \<Rightarrow> string" where
  "fmt_nat n = (if n < 10 then [digit_char n] else fmt_nat (n div 10) @ [digit_char (n mod 10)])"
  by pat_completeness auto
termination
  by (relation "measure id") auto

declare fmt_nat.simps [simp del]

definition fmt_uint64 :: "64 word \<Rightarrow> string" where
  "fmt_uint64 w = fmt_nat (unat w)"

text \<open>\<open>strings.Join\<close>.\<close>

fun strings_Join :: "string list \<Rightarrow> string \<Rightarrow> string" where
  "strings_Join [] sep = []"
| "strings_Join [x] sep = x"
| "strings_Join (x # y # ys) sep = x @ sep @ strings_Join (y # ys) sep"

text \<open>
  \<open>mustNewDB\<close>: the data source name is what \<open>fmt.Sprintf\<close> builds from the
  configuration; \<open>gorm.Open\<close> on it is a parameter; the choice of the log level does
  not change the result and is left out.
\<close>

definition dataSourceName :: "Config \<Rightarrow> string \<Rightarrow> string" where
  "dataSourceName config database =
     Username config @ '':'' @ Password config @ ''@tcp('' @ Host config @ '')/''
       @ database @ ''?parseTime=true''"

definition mustNewDB :: "(string \<Rightarrow> error + gormDB) \<Rightarrow> Config \<Rightarrow> string \<Rightarrow> gormDB startup" where
  "mustNewDB gorm_Open config database =
     (let dsn = dataSourceName config database
      in case gorm_Open dsn of
           Inl err \<Rightarrow> Fatal ''Failed to open mysql''
         | Inr db \<Rightarrow> Started db)"

definition mustCreateDatabaseIfAbsent :: "(string \<Rightarrow> error + gormDB) \<Rightarrow> Config \<Rightarrow> bool startup" where
  "mustCreateDatabaseIfAbsent gorm_Open config =
     (case mustNewDB gorm_Open config [] of
        Fatal m \<Rightarrow> Fatal m
      | Started db \<Rightarrow>
          (case db_DB db of
             Some err \<Rightarrow> Started False
           | None \<Rightarrow>
               (case db_Rows db (''SHOW DATABASES LIKE '' @ [CHR 0x27] @ Database config @ [CHR 0x27]) of
                  Inl err \<Rightarrow> Fatal ''Failed to query databases''
                | Inr has_row \<Rightarrow>
                    if has_row then Started False
                    else
                      (case db_Exec db (''CREATE DATABASE IF NOT EXISTS '' @ Database config) of
                         Some err \<Rightarrow> Fatal ''Failed to create database''
                       | None \<Rightarrow> Started True))))"

text \<open>
  \<open>initLogsPartitions\<close>. \<open>LogsTablePartitionsNum\<close> (after its conversion to \<open>uint64\<close>)
  and \<open>LogsTablePartitionRangeSize\<close> are declared outside the shown source and are
  parameters. The loop counts in \<open>uint64\<close>, and \<open>(i+1)*LogsTablePartitionRangeSize\<close> is
  a \<open>uint64\<close> product.
\<close>

definition partition_line :: "64 word \<Rightarrow> 64 word \<Rightarrow> string" where
  "partition_line i rangeSize =
     ''PARTITION logs'' @ fmt_uint64 i @ '' VALUES LESS THAN ('' @ fmt_uint64 ((i + 1) * rangeSize) @ ''),''"

function logsPartitionLoop :: "64 word \<Rightarrow> 64 word \<Rightarrow> 64 word \<Rightarrow> string list \<Rightarrow> string list" where
  "logsPartitionLoop i num rangeSize sqlLines =
     (if i < num then logsPartitionLoop (i + 1) num rangeSize (sqlLines @ [partition_line i rangeSize])
      else sqlLines)"
  by pat_completeness auto
termination
proof (relation "measure (\<lambda>(i, num, rangeSize, sqlLines). unat num - unat i)")
  show "wf (measure (\<lambda>(i, num, rangeSize, sqlLines). unat num - unat i))" by simp
next
  fix i num rangeSize :: "64 word" and sqlLines :: "string list"
  assume lt: "i < num"
  then have "unat i < unat num" by (simp add: word_less_nat_alt)
  moreover have "unat num < 2 ^ 64" using unsigned_less [of num] by simp
  ultimately have "unat i + 1 < 2 ^ 64" by linarith
  then have "unat (i + 1) = Suc (unat i)" by (simp add: unat_word_ariths)
  with \<open>unat i < unat num\<close> show "((i + 1, num, rangeSize, sqlLines @ [partition_line i rangeSize]),
      (i, num, rangeSize, sqlLines)) \<in> measure (\<lambda>(i, num, rangeSize, sqlLines). unat num - unat i)"
    by simp
qed

declare logsPartitionLoop.simps [simp del]

definition logsPartitionSqlLines :: "64 word \<Rightarrow> 64 word \<Rightarrow> string list" where
  "logsPartitionSqlLines num rangeSize =
     logsPartitionLoop 0 num rangeSize [''ALTER TABLE logs PARTITION BY RANGE (id)('']
       @ [''PARTITION logsow VALUES LESS THAN MAXVALUE);'']"

definition initLogsPartitions :: "64 word \<Rightarrow> 64 word \<Rightarrow> gormDB \<Rightarrow> error option" where
  "initLogsPartitions num rangeSize db =
     (let logsPartitionSql = strings_Join (logsPartitionSqlLines num rangeSize) [CHR 0x0A]
      in db_Exec db logsPartitionSql)"

text \<open>
  \<open>MustOpenOrCreate\<close>. \<open>mustNewStore\<close> is outside the shown source and is a parameter
  that may itself be fatal. The three setters of the connection pool return nothing and
  are left out.
\<close>

definition MustOpenOrCreate ::
  "(string \<Rightarrow> error + gormDB) \<Rightarrow> (gormDB \<Rightarrow> 'o \<Rightarrow> 's startup) \<Rightarrow> 64 word \<Rightarrow> 64 word
    \<Rightarrow> Config \<Rightarrow> 'o \<Rightarrow> 's startup" where
  "MustOpenOrCreate gorm_Open mustNewStore num rangeSize config option =
     (case mustCreateDatabaseIfAbsent gorm_Open config of
        Fatal m \<Rightarrow> Fatal m
      | Started newCreated \<Rightarrow>
          (case mustNewDB gorm_Open config (Database config) of
             Fatal m \<Rightarrow> Fatal m
           | Started db \<Rightarrow>
               (case
                  (if newCreated then
                     (case db_CreateTable db of
                        Some err \<Rightarrow> Fatal ''Failed to create tables''
                      | None \<Rightarrow>
                          (case initLogsPartitions num rangeSize db of
                             Some err \<Rightarrow> Fatal ''Failed to init logs table partitions''
                           | None \<Rightarrow> Started ()))
                   else Started ())
                of
                  Fatal m \<Rightarrow> Fatal m
                | Started u \<Rightarrow>
                    (case db_DB db of
                       Some err \<Rightarrow> Fatal ''Failed to init mysql db''
                     | None \<Rightarrow> mustNewStore db option))))"

section \<open>The epoch to block map store (package mysql)\<close>

definition defaultBatchSizeMappingInsert :: nat where
  "defaultBatchSizeMappingInsert = 1000"

record epochBlockMap =
  ID :: "64 word"
  Epoch :: "64 word"
  BnMin :: "64 word"
  BnMax :: "64 word"
  PivotHash :: string

text \<open>
  \<open>store.EpochData\<close> by the two fields read here. The block type \<open>'b\<close> belongs to the
  chain SDK; the two expressions read from a block, \<open>BlockNumber.ToInt().Uint64()\<close> and
  \<open>Hash.String()\<close>, are parameters, and so is \<open>GetPivotBlock\<close>, which is outside the
  shown source: \<open>None\<close> when it gives no block (it panics). Pointers are taken as not nil.
\<close>

record 'b EpochData =
  Number :: "64 word"
  Blocks :: "'b list"

datatype 'a outcome = Panic | Return 'a

text \<open>
  The loop of \<open>Pushn\<close> over \<open>dataSlice\<close>: \<open>GetPivotBlock\<close> is called first, then
  \<open>Blocks[0]\<close> is read, which panics on an empty slice of blocks.
\<close>

fun Pushn_loop ::
  "('b EpochData \<Rightarrow> 'b option) \<Rightarrow> ('b \<Rightarrow> 64 word) \<Rightarrow> ('b \<Rightarrow> string) \<Rightarrow> 'b EpochData list
    \<Rightarrow> epochBlockMap list \<Rightarrow> epochBlockMap list outcome" where
  "Pushn_loop GetPivotBlock blockNumber hashString [] mappings = Return mappings"
| "Pushn_loop GetPivotBlock blockNumber hashString (data # rest) mappings =
     (case GetPivotBlock data of
        None \<Rightarrow> Panic
      | Some pivotBlock \<Rightarrow>
          (case Blocks data of
             [] \<Rightarrow> Panic
           | b0 # bs \<Rightarrow>
               Pushn_loop GetPivotBlock blockNumber hashString rest
                 (mappings @ [\<lparr>ID = 0, Epoch = Number data, BnMin = blockNumber b0,
                               BnMax = blockNumber pivotBlock, PivotHash = hashString pivotBlock\<rparr>])))"

text \<open>
  \<open>Pushn\<close>. \<open>dbTx.CreateInBatches(mappings, size).Error\<close> is a parameter. The result
  is the returned error together with the list of the writes made on \<open>dbTx\<close>.
\<close>

definition Pushn ::
  "('b EpochData \<Rightarrow> 'b option) \<Rightarrow> ('b \<Rightarrow> 64 word) \<Rightarrow> ('b \<Rightarrow> string)
    \<Rightarrow> (epochBlockMap list \<Rightarrow> nat \<Rightarrow> error option) \<Rightarrow> 'b EpochData list
    \<Rightarrow> (error option \<times> (epochBlockMap list \<times> nat) list) outcome" where
  "Pushn GetPivotBlock blockNumber hashString CreateInBatches dataSlice =
     (case Pushn_loop GetPivotBlock blockNumber hashString dataSlice [] of
        Panic \<Rightarrow> Panic
      | Return mappings \<Rightarrow>
          if length mappings = 0 then Return (None, [])
          else Return (CreateInBatches mappings defaultBatchSizeMappingInsert,
                       [(mappings, defaultBatchSizeMappingInsert)]))"

section \<open>Properties of the client provider\<close>

lemma getClient_provider: "fst (snd (getClient U key grp s)) = fst s"
  by (cases s)
     (simp add: getClient_def Let_def split: option.splits prod.splits sum.splits)

lemma registerGroup_clients_kept:
  "clients (fst s) g' = Some a \<Longrightarrow> clients (fst (snd (registerGroup g s))) g' = Some a"
  by (cases s) (auto simp: registerGroup_def Let_def split: option.splits)

lemma registerGroup_clients_other:
  "g' \<noteq> g \<Longrightarrow> clients (fst (snd (registerGroup g s))) g' = clients (fst s) g'"
  by (cases s) (auto simp: registerGroup_def Let_def split: option.splits)

lemma registerGroup_registered:
  "clients (fst s) g = Some a \<Longrightarrow> registerGroup g s = (a, s)"
  by (cases s) (simp add: registerGroup_def)

lemma registerGroup_result:
  "clients (fst (snd (registerGroup g s))) g = Some (fst (registerGroup g s))"
  by (cases s) (auto simp: registerGroup_def Let_def split: option.splits)

lemma step_clients_kept:
  "clients (fst s) g = Some a \<Longrightarrow> clients (fst (step U x s)) g = Some a"
  by (cases x) (simp_all add: registerGroup_clients_kept getClient_provider)

lemma run_clients_kept:
  "clients (fst s) g = Some a \<Longrightarrow> clients (fst (run U ops s)) g = Some a"
  by (induction ops arbitrary: s) (simp_all add: step_clients_kept)

lemma step_clients_unregistered:
  "x \<noteq> RegisterGroup g \<Longrightarrow> clients (fst (step U x s)) g = clients (fst s) g"
  by (cases x) (auto simp: registerGroup_clients_other getClient_provider)

lemma run_clients_unregistered:
  "RegisterGroup g \<notin> set ops \<Longrightarrow> clients (fst (run U ops s)) g = clients (fst s) g"
  by (induction ops arbitrary: s) (auto simp: step_clients_unregistered)

lemma getClient_unknown:
  "clients (fst s) grp = None \<Longrightarrow>
     getClient U key grp s = (Inl (ErrorsErrorf (''Unknown node group '' @ grp)), s)"
  by (cases s) (simp add: getClient_def)

text \<open>
  Claim C3. On a provider made by \<open>newClientProvider\<close>, after any history of calls in
  which \<open>registerGroup\<close> was never called with the group, \<open>getClient\<close> for that group
  returns the unknown group error and leaves the whole state as it was: no call of the
  router and none of the factory is logged, no pool is read or written, and the map from
  groups to pools is unchanged.
\<close>

theorem getClient_unknown_group:
  assumes "RegisterGroup grp \<notin> set ops"
  shows "(let s = run U ops (newClientProvider r f, rt);
              res = getClient U key grp s
          in fst res = Inl (ErrorsErrorf (''Unknown node group '' @ grp))
           \<and> snd res = s
           \<and> route_calls (trace (snd (snd res))) = route_calls (trace (snd s))
           \<and> factory_calls (trace (snd (snd res))) = factory_calls (trace (snd s))
           \<and> heap (snd (snd res)) = heap (snd s)
           \<and> clients (fst (snd res)) = clients (fst s))"
proof -
  have "clients (fst (run U ops (newClientProvider r f, rt))) grp = None"
    using assms by (simp add: run_clients_unregistered newClientProvider_def)
  then have "getClient U key grp (run U ops (newClientProvider r f, rt)) =
      (Inl (ErrorsErrorf (''Unknown node group '' @ grp)), run U ops (newClientProvider r f, rt))"
    by (rule getClient_unknown)
  then show ?thesis by (simp add: Let_def)
qed

text \<open>The same on a history that registers another group only.\<close>

theorem getClient_unknown_group_witness:
  "fst (getClient id ''10.0.0.1'' ''ethhttp''
          (run id [RegisterGroup ''cfxhttp'', GetClient ''10.0.0.1'' ''cfxhttp'']
             (newClientProvider (\<lambda>g k w. (''http://n1'', w)) (\<lambda>u w. (Inr u, Suc w)),
              \<lparr>heap = (\<lambda>a. Map.empty), next_addr = 0, world = (0::nat), trace = []\<rparr>)))
   = (Inl (ErrorsErrorf ''Unknown node group ethhttp'') :: error + string)"
proof -
  have unregistered:
    "RegisterGroup ''ethhttp'' \<notin> set [RegisterGroup ''cfxhttp'', GetClient ''10.0.0.1'' ''cfxhttp'']"
    by simp
  from getClient_unknown_group [OF unregistered, of id "\<lambda>g k w. (''http://n1'', w)"
      "\<lambda>u w. (Inr u, Suc w)"
      "\<lparr>heap = (\<lambda>a. Map.empty), next_addr = 0, world = (0::nat), trace = []\<rparr>" "''10.0.0.1''"]
  have "fst (getClient id ''10.0.0.1'' ''ethhttp''
          (run id [RegisterGroup ''cfxhttp'', GetClient ''10.0.0.1'' ''cfxhttp'']
             (newClientProvider (\<lambda>g k w. (''http://n1'', w)) (\<lambda>u w. (Inr u, Suc w)),
              \<lparr>heap = (\<lambda>a. Map.empty), next_addr = 0, world = (0::nat), trace = []\<rparr>)))
      = (Inl (ErrorsErrorf (''Unknown node group '' @ ''ethhttp'')) :: error + string)"
    unfolding Let_def by (rule conjunct1)
  then show ?thesis by (simp only: append.simps)
qed

lemma factory_calls_append [simp]:
  "factory_calls (xs @ ys) = factory_calls xs @ factory_calls ys"
  by (simp add: factory_calls_def)

lemma route_calls_append [simp]:
  "route_calls (xs @ ys) = route_calls xs @ route_calls ys"
  by (simp add: route_calls_def)

lemma getClient_empty_url:
  assumes "clients p grp = Some cm" and "fst (router p grp key (world rt)) = []"
  shows "getClient U key grp (p, rt) =
           (Inl ErrClientUnavailable, p,
            rt\<lparr>world := snd (router p grp key (world rt)), trace := trace rt @ [RouteCall grp key]\<rparr>)"
  using assms by (cases "router p grp key (world rt)") (simp add: getClient_def call_route_def)

lemma getClient_unavailable_no_factory:
  assumes "fst (getClient U key grp s) = Inl ErrClientUnavailable"
  shows "factory_calls (trace (snd (snd (getClient U key grp s)))) = factory_calls (trace (snd s))"
  using assms
  by (cases s)
     (auto simp: getClient_def call_route_def ErrClientUnavailable_def factory_calls_def Let_def
           split: option.splits prod.splits sum.splits if_splits)

text \<open>
  Claim C2. For a registered group, when the router returns the empty string,
  \<open>getClient\<close> returns \<open>ErrClientUnavailable\<close>; the only thing that happened is the
  call of the router: the factory is not called and no pool changes. The error differs
  from every wrapped connection error and from the unknown group error, and no call of
  \<open>getClient\<close> that returns it has called the factory.
\<close>

theorem getClient_no_upstream:
  assumes "clients p grp = Some cm" and "fst (router p grp key (world rt)) = []"
  shows "getClient U key grp (p, rt) =
           (Inl ErrClientUnavailable, p,
            rt\<lparr>world := snd (router p grp key (world rt)), trace := trace rt @ [RouteCall grp key]\<rparr>)
       \<and> factory_calls (trace (snd (snd (getClient U key grp (p, rt))))) = factory_calls (trace rt)
       \<and> heap (snd (snd (getClient U key grp (p, rt)))) = heap rt
       \<and> ErrClientUnavailable \<noteq> WithMessage cause ''bad full node connection''
       \<and> ErrClientUnavailable \<noteq> ErrorsErrorf (''Unknown node group '' @ grp)
       \<and> (\<forall>key' grp' s'. fst (getClient U key' grp' s') = Inl ErrClientUnavailable \<longrightarrow>
             factory_calls (trace (snd (snd (getClient U key' grp' s')))) = factory_calls (trace (snd s')))"
proof -
  note eq = getClient_empty_url [OF assms, of U]
  have "factory_calls (trace (snd (snd (getClient U key grp (p, rt))))) = factory_calls (trace rt)"
    by (simp add: eq factory_calls_def)
  moreover have "heap (snd (snd (getClient U key grp (p, rt)))) = heap rt"
    by (simp add: eq)
  moreover have "ErrClientUnavailable \<noteq> WithMessage cause ''bad full node connection''"
    and "ErrClientUnavailable \<noteq> ErrorsErrorf (''Unknown node group '' @ grp)"
    by (simp_all add: ErrClientUnavailable_def)
  ultimately show ?thesis
    using eq getClient_unavailable_no_factory [of U] by blast
qed

text \<open>A router with no node for the group.\<close>

theorem getClient_no_upstream_witness:
  "getClient id ''10.0.0.1'' ''cfxhttp''
     (\<lparr>router = (\<lambda>g k w. ([], w)), factory = (\<lambda>u w. (Inr u, Suc w)), clients = [''cfxhttp'' \<mapsto> 0]\<rparr>,
      \<lparr>heap = (\<lambda>a. Map.empty), next_addr = 1, world = (0::nat), trace = []\<rparr>)
   = (Inl (ErrorsNew ''no full node available''),
      \<lparr>router = (\<lambda>g k w. ([], w)), factory = (\<lambda>u w. (Inr u, Suc w)), clients = [''cfxhttp'' \<mapsto> 0]\<rparr>,
      \<lparr>heap = (\<lambda>a. Map.empty), next_addr = 1, world = (0::nat),
        trace = [RouteCall ''cfxhttp'' ''10.0.0.1'']\<rparr>)"
proof -
  let ?p = "\<lparr>router = (\<lambda>g k w. ([], w)), factory = (\<lambda>u w. (Inr u, Suc w)),
             clients = [''cfxhttp'' \<mapsto> 0]\<rparr> :: (nat, string) clientProvider"
  let ?rt = "\<lparr>heap = (\<lambda>a. Map.empty), next_addr = 1, world = (0::nat), trace = []\<rparr>
               :: (nat, string) runtime"
  have registered: "clients ?p ''cfxhttp'' = Some 0" by simp
  have no_url: "fst (router ?p ''cfxhttp'' ''10.0.0.1'' (world ?rt)) = []" by simp
  from getClient_no_upstream [OF registered no_url, of id, THEN conjunct1]
  show ?thesis by (simp add: ErrClientUnavailable_def)
qed

lemma getClient_create:
  assumes "clients p grp = Some cm"
    and "router p grp key (world rt) = (url, w1)" and "url \<noteq> []"
    and "heap rt cm (U url) = None"
    and "factory p url w1 = (r, w2)"
  shows "getClient U key grp (p, rt) =
           (case r of
              Inl cause \<Rightarrow>
                (Inl (WithMessage cause ''bad full node connection''), p,
                 rt\<lparr>world := w2, trace := trace rt @ [RouteCall grp key, FactoryCall url]\<rparr>)
            | Inr c \<Rightarrow>
                (Inr c, p,
                 rt\<lparr>heap := (heap rt)(cm := (heap rt cm)(U url \<mapsto> c)), world := w2,
                    trace := trace rt @ [RouteCall grp key, FactoryCall url]\<rparr>))"
  using assms
  by (simp add: getClient_def call_route_def LoadOrStoreFnErr_def call_factory_def split: sum.splits)

text \<open>
  Claim C4. When the node has no cached client and the factory fails, \<open>getClient\<close>
  returns the cause wrapped by \<open>errors.WithMessage\<close> and the pool is left as it was.
  A second call that routes to the same node name calls the factory again; when the
  factory succeeds this time, the call returns the new client and caches it.
\<close>

theorem getClient_retry_after_failure:
  assumes "clients p grp = Some cm"
    and "router p grp key (world rt) = (url, w1)" and "url \<noteq> []"
    and "heap rt cm (U url) = None"
    and "factory p url w1 = (Inl cause, w2)"
    and "router p grp key' w2 = (url', w3)" and "url' \<noteq> []" and "U url' = U url"
    and "factory p url' w3 = (Inr c, w4)"
  shows "getClient U key grp (p, rt) =
           (Inl (WithMessage cause ''bad full node connection''), p,
            rt\<lparr>world := w2, trace := trace rt @ [RouteCall grp key, FactoryCall url]\<rparr>)
       \<and> getClient U key' grp
           (p, rt\<lparr>world := w2, trace := trace rt @ [RouteCall grp key, FactoryCall url]\<rparr>) =
           (Inr c, p,
            rt\<lparr>heap := (heap rt)(cm := (heap rt cm)(U url \<mapsto> c)), world := w4,
               trace := trace rt @ [RouteCall grp key, FactoryCall url,
                                    RouteCall grp key', FactoryCall url']\<rparr>)"
proof -
  let ?rt1 = "rt\<lparr>world := w2, trace := trace rt @ [RouteCall grp key, FactoryCall url]\<rparr>"
  have first: "getClient U key grp (p, rt) =
      (Inl (WithMessage cause ''bad full node connection''), p, ?rt1)"
    using getClient_create [where U = U and url = url, OF assms(1-5)] by simp
  have "router p grp key' (world ?rt1) = (url', w3)" using assms(6) by simp
  moreover have "heap ?rt1 cm (U url') = None" using assms(4,8) by simp
  ultimately have "getClient U key' grp (p, ?rt1) =
      (Inr c, p, ?rt1\<lparr>heap := (heap ?rt1)(cm := (heap ?rt1 cm)(U url' \<mapsto> c)), world := w4,
                     trace := trace ?rt1 @ [RouteCall grp key', FactoryCall url']\<rparr>)"
    using getClient_create [where U = U and url = url' and rt = ?rt1 and key = key', OF assms(1) _ assms(7) _ assms(9)]
    by simp
  with first show ?thesis using assms(8) by simp
qed

text \<open>A factory that fails on its first call and succeeds from the second on.\<close>

theorem getClient_retry_after_failure_witness:
  "fst (getClient id ''10.0.0.1'' ''cfxhttp''
          (\<lparr>router = (\<lambda>g k w. (''http://n1'', w)),
             factory = (\<lambda>u w. (if w = 0 then Inl (ErrorsNew ''refused'') else Inr ''client'', Suc w)),
             clients = [''cfxhttp'' \<mapsto> 0]\<rparr>,
           \<lparr>heap = (\<lambda>a. Map.empty), next_addr = 1, world = (0::nat), trace = []\<rparr>))
     = Inl (WithMessage (ErrorsNew ''refused'') ''bad full node connection'')
   \<and> fst (getClient id ''10.0.0.1'' ''cfxhttp''
          (snd (getClient id ''10.0.0.1'' ''cfxhttp''
             (\<lparr>router = (\<lambda>g k w. (''http://n1'', w)),
                factory = (\<lambda>u w. (if w = 0 then Inl (ErrorsNew ''refused'') else Inr ''client'', Suc w)),
                clients = [''cfxhttp'' \<mapsto> 0]\<rparr>,
              \<lparr>heap = (\<lambda>a. Map.empty), next_addr = 1, world = (0::nat), trace = []\<rparr>))))
     = Inr ''client''"
proof -
  let ?p = "\<lparr>router = (\<lambda>g k w. (''http://n1'', w)),
             factory = (\<lambda>u w. (if w = 0 then Inl (ErrorsNew ''refused'') else Inr ''client'', Suc w)),
             clients = [''cfxhttp'' \<mapsto> 0]\<rparr> :: (nat, string) clientProvider"
  let ?rt = "\<lparr>heap = (\<lambda>a. Map.empty), next_addr = 1, world = (0::nat), trace = []\<rparr>
               :: (nat, string) runtime"
  have h1: "clients ?p ''cfxhttp'' = Some 0" by simp
  have h2: "router ?p ''cfxhttp'' ''10.0.0.1'' (world ?rt) = (''http://n1'', 0)" by simp
  have h3: "''http://n1'' \<noteq> []" by simp
  have h4: "heap ?rt 0 (id ''http://n1'') = None" by simp
  have h5: "factory ?p ''http://n1'' 0 = (Inl (ErrorsNew ''refused''), 1)" by simp
  have h6: "router ?p ''cfxhttp'' ''10.0.0.1'' 1 = (''http://n1'', 1)" by simp
  have h7: "id ''http://n1'' = id ''http://n1''" by simp
  have h8: "factory ?p ''http://n1'' 1 = (Inr ''client'', 2)" by simp
  from getClient_retry_after_failure
    [where U = id and url = "''http://n1''" and url' = "''http://n1''", OF h1 h2 h3 h4 h5 h6 h3 h7 h8]
  show ?thesis by simp
qed

lemma run_replicate_registered:
  "clients (fst s) g = Some a \<Longrightarrow> run U (replicate n (RegisterGroup g)) s = s"
  by (induction n) (simp_all add: registerGroup_registered)

text \<open>
  Claim C5. \<open>registerGroup\<close> returns the pool that the map holds for the group; any
  number \<open>n + 1\<close> of calls in a row leaves the state one call leaves; after any later
  history of calls the group still has that same pool, and a further \<open>registerGroup\<close>
  returns it and changes nothing. \<open>getClient\<close> never changes the provider, so it never
  adds or replaces an entry of the map.
\<close>

theorem registerGroup_idempotent:
  "clients (fst (snd (registerGroup g s))) g = Some (fst (registerGroup g s))
   \<and> run U (replicate (Suc n) (RegisterGroup g)) s = snd (registerGroup g s)
   \<and> clients (fst (run U ops (snd (registerGroup g s)))) g = Some (fst (registerGroup g s))
   \<and> registerGroup g (run U ops (snd (registerGroup g s))) =
       (fst (registerGroup g s), run U ops (snd (registerGroup g s)))
   \<and> fst (snd (getClient U key g' s')) = fst s'"
proof -
  let ?a = "fst (registerGroup g s)" and ?s1 = "snd (registerGroup g s)"
  have reg: "clients (fst ?s1) g = Some ?a" by (rule registerGroup_result)
  then have kept: "clients (fst (run U ops ?s1)) g = Some ?a" by (rule run_clients_kept)
  have "run U (replicate (Suc n) (RegisterGroup g)) s = ?s1"
    using run_replicate_registered [OF reg] by simp
  moreover have "registerGroup g (run U ops ?s1) = (?a, run U ops ?s1)"
    using kept by (rule registerGroup_registered)
  ultimately show ?thesis using reg kept by (simp add: getClient_provider)
qed

text \<open>A group registered again after other calls keeps its pool.\<close>

theorem registerGroup_idempotent_witness:
  "fst (registerGroup ''cfxhttp''
         (run id [RegisterGroup ''ethhttp'', GetClient ''10.0.0.1'' ''cfxhttp'', RegisterGroup ''cfxhttp'']
            (snd (registerGroup ''cfxhttp''
               (newClientProvider (\<lambda>g k w. (''http://n1'', w)) (\<lambda>u w. (Inr u, Suc w)),
                \<lparr>heap = (\<lambda>a. Map.empty), next_addr = 0, world = (0::nat), trace = []\<rparr>)))))
   = fst (registerGroup ''cfxhttp''
            (newClientProvider (\<lambda>g k w. (''http://n1'', w)) (\<lambda>u w. (Inr u :: error + string, Suc w)),
             \<lparr>heap = (\<lambda>a. Map.empty), next_addr = 0, world = (0::nat), trace = []\<rparr>))"
proof -
  let ?s = "(newClientProvider (\<lambda>g k w. (''http://n1'', w)) (\<lambda>u w. (Inr u :: error + string, Suc w)),
             \<lparr>heap = (\<lambda>a. Map.empty), next_addr = 0, world = (0::nat), trace = []\<rparr>)"
  let ?ops = "[RegisterGroup ''ethhttp'', GetClient ''10.0.0.1'' ''cfxhttp'', RegisterGroup ''cfxhttp'']"
  from registerGroup_idempotent [of "''cfxhttp''" ?s id 0 ?ops]
  have "registerGroup ''cfxhttp'' (run id ?ops (snd (registerGroup ''cfxhttp'' ?s))) =
          (fst (registerGroup ''cfxhttp'' ?s), run id ?ops (snd (registerGroup ''cfxhttp'' ?s)))"
    by blast
  then show ?thesis by (simp only: fst_conv)
qed

section \<open>Properties of server assembly\<close>

lemma find_unknown_None:
  "find (\<lambda>m. m \<notin> S) xs = None \<longleftrightarrow> set xs \<subseteq> S"
  by (induction xs) auto

lemma filterExposedApis_cases:
  "filterExposedApis allApis exposedModules =
     (if exposedModules = [] then Inr (filter Public allApis)
      else if set exposedModules \<subseteq> set (map Namespace allApis)
        then Inr (filter (\<lambda>a. Namespace a \<in> set exposedModules) allApis)
      else Inl (ErrorsErrorf (''unknown module '' @ the (find (\<lambda>m. m \<notin> set (map Namespace allApis)) exposedModules))))"
proof (cases "find (\<lambda>m. m \<notin> set (map Namespace allApis)) exposedModules")
  case None
  then have "set exposedModules \<subseteq> set (map Namespace allApis)"
    by (simp only: find_unknown_None)
  with None show ?thesis by (simp add: filterExposedApis_def)
next
  case (Some m)
  then have "\<not> set exposedModules \<subseteq> set (map Namespace allApis)"
    using find_unknown_None [of "set (map Namespace allApis)" exposedModules] by simp
  moreover from this have "exposedModules \<noteq> []" by auto
  ultimately show ?thesis using Some by (simp add: filterExposedApis_def)
qed

text \<open>
  Claim C6, as the code has it. A server returned by \<open>MustNewNativeSpaceServer\<close> is
  named \<open>core_space_rpc\<close> and carries \<open>httpMiddleware\<close> over the native registry and the
  native client provider; one returned by \<open>MustNewEvmSpaceServer\<close> is named
  \<open>evm_space_rpc\<close> and carries \<open>httpMiddleware\<close> over the EVM registry and the EVM
  client provider; one returned by \<open>MustNewNativeSpaceBridgeServer\<close> is named
  \<open>core_space_bridge_rpc\<close> and carries no middleware.
\<close>

theorem server_assembly_identifier_and_middleware:
  "(MustNewNativeSpaceServer nativeSpaceApis rtr gashandler exposedModules option = Started srv \<longrightarrow>
      server_name srv = ''core_space_rpc'' \<and>
      server_middlewares srv = [httpMiddleware DefaultRegistryCfx (NewCfxClientProvider rtr)])
   \<and> (MustNewEvmSpaceServer evmSpaceApis rtr' exposedModules' option' = Started srv' \<longrightarrow>
      server_name srv' = ''evm_space_rpc'' \<and>
      server_middlewares srv' = [httpMiddleware DefaultRegistryEth (NewEthClientProvider rtr')])
   \<and> (MustNewNativeSpaceBridgeServer nativeSpaceBridgeApis config = Started srv'' \<longrightarrow>
      server_name srv'' = ''core_space_bridge_rpc'' \<and> server_middlewares srv'' = [])"
proof -
  have native: "server_name srv = ''core_space_rpc'' \<and>
      server_middlewares srv = [httpMiddleware DefaultRegistryCfx (NewCfxClientProvider rtr)]"
    if "MustNewNativeSpaceServer nativeSpaceApis rtr gashandler exposedModules option = Started srv"
    using that
    by (auto simp: MustNewNativeSpaceServer_def MustNewServer_def nativeSpaceRpcServerName_def Let_def
             split: sum.splits)
  have evm: "server_name srv' = ''evm_space_rpc'' \<and>
      server_middlewares srv' = [httpMiddleware DefaultRegistryEth (NewEthClientProvider rtr')]"
    if "MustNewEvmSpaceServer evmSpaceApis rtr' exposedModules' option' = Started srv'"
    using that
    by (auto simp: MustNewEvmSpaceServer_def MustNewServer_def evmSpaceRpcServerName_def Let_def
             split: sum.splits)
  have bridge: "server_name srv'' = ''core_space_bridge_rpc'' \<and> server_middlewares srv'' = []"
    if "MustNewNativeSpaceBridgeServer nativeSpaceBridgeApis config = Started srv''"
    using that
    by (auto simp: MustNewNativeSpaceBridgeServer_def MustNewServer_def
                   nativeSpaceBridgeRpcServerName_def split: sum.splits)
  from native evm bridge show ?thesis by blast
qed

text \<open>The three assembly functions on one module each.\<close>

theorem server_assembly_identifier_and_middleware_witness:
  "MustNewNativeSpaceServer
     (\<lambda>p g opt. [\<lparr>Namespace = ''cfx'', Service = (), Public = True\<rparr>]) () () [] ([] :: unit list)
   = Started \<lparr>server_name = ''core_space_rpc'',
              server_apis = [\<lparr>Namespace = ''cfx'', Service = (), Public = True\<rparr>],
              server_middlewares = [httpMiddleware DefaultRegistryCfx (NewCfxClientProvider ())]\<rparr>
   \<and> MustNewEvmSpaceServer
     (\<lambda>p opt. Inr [\<lparr>Namespace = ''eth'', Service = (), Public = True\<rparr>]) () [''eth''] ([] :: unit list)
   = Started \<lparr>server_name = ''evm_space_rpc'',
              server_apis = [\<lparr>Namespace = ''eth'', Service = (), Public = True\<rparr>],
              server_middlewares = [httpMiddleware DefaultRegistryEth (NewEthClientProvider ())]\<rparr>
   \<and> MustNewNativeSpaceBridgeServer
     (\<lambda>ethNode cfxNode. Inr [\<lparr>Namespace = ''cfx'', Service = (), Public = True\<rparr>])
     \<lparr>EthNode = ''http://eth'', CfxNode = ''http://cfx'', ExposedModules = [''cfx''],
       Endpoint = '':32537''\<rparr>
   = Started \<lparr>server_name = ''core_space_bridge_rpc'',
              server_apis = [\<lparr>Namespace = ''cfx'', Service = (), Public = True\<rparr>],
              server_middlewares = ([] :: unit middleware list)\<rparr>"
proof -
  let ?api = "\<lambda>n. \<lparr>Namespace = n, Service = (), Public = True\<rparr>"
  let ?native = "\<lparr>server_name = ''core_space_rpc'', server_apis = [?api ''cfx''],
                  server_middlewares = [httpMiddleware DefaultRegistryCfx (NewCfxClientProvider ())]\<rparr>"
  let ?evm = "\<lparr>server_name = ''evm_space_rpc'', server_apis = [?api ''eth''],
               server_middlewares = [httpMiddleware DefaultRegistryEth (NewEthClientProvider ())]\<rparr>"
  let ?bridge = "MustNewServer nativeSpaceBridgeRpcServerName [?api ''cfx''] [] :: (unit, unit) Server"
  let ?config = "\<lparr>EthNode = ''http://eth'', CfxNode = ''http://cfx'', ExposedModules = [''cfx''],
                   Endpoint = '':32537''\<rparr>"
  have native: "MustNewNativeSpaceServer (\<lambda>p g opt. [?api ''cfx'']) () () [] ([] :: unit list)
      = Started ?native"
    by (simp add: MustNewNativeSpaceServer_def filterExposedApis_def MustNewServer_def
                  nativeSpaceRpcServerName_def)
  have evm: "MustNewEvmSpaceServer (\<lambda>p opt. Inr [?api ''eth'']) () [''eth''] ([] :: unit list)
      = Started ?evm"
    by (simp add: MustNewEvmSpaceServer_def filterExposedApis_def MustNewServer_def
                  evmSpaceRpcServerName_def)
  have bridge: "MustNewNativeSpaceBridgeServer (\<lambda>ethNode cfxNode. Inr [?api ''cfx'']) ?config
      = Started ?bridge"
    by (simp add: MustNewNativeSpaceBridgeServer_def filterExposedApis_def)
  from server_assembly_identifier_and_middleware
    [where nativeSpaceApis = "\<lambda>p g opt. [?api ''cfx'']" and rtr = "()" and gashandler = "()"
       and exposedModules = "[]" and option = "[] :: unit list" and srv = ?native
       and evmSpaceApis = "\<lambda>p opt. Inr [?api ''eth'']" and rtr' = "()" and exposedModules' = "[''eth'']"
       and option' = "[] :: unit list" and srv' = ?evm
       and nativeSpaceBridgeApis = "\<lambda>ethNode cfxNode. Inr [?api ''cfx'']" and config = ?config
       and srv'' = ?bridge]
    native evm bridge
  have "server_name ?bridge = ''core_space_bridge_rpc'' \<and> server_middlewares ?bridge = []"
    by blast
  with native evm bridge show ?thesis by (simp add: MustNewServer_def)
qed

text \<open>
  Claim C6 as stated fails for the bridge: its server is built with no middleware at all.
\<close>

theorem bridge_server_without_middleware:
  "MustNewNativeSpaceBridgeServer
     (\<lambda>ethNode cfxNode. Inr [\<lparr>Namespace = ''cfx'', Service = (), Public = True\<rparr>])
     \<lparr>EthNode = ''http://eth'', CfxNode = ''http://cfx'', ExposedModules = [], Endpoint = '':32537''\<rparr>
   = Started \<lparr>server_name = ''core_space_bridge_rpc'',
              server_apis = [\<lparr>Namespace = ''cfx'', Service = (), Public = True\<rparr>],
              server_middlewares = ([] :: unit middleware list)\<rparr>"
  by (simp add: MustNewNativeSpaceBridgeServer_def filterExposedApis_def MustNewServer_def
                nativeSpaceBridgeRpcServerName_def)

text \<open>
  Claim C7. In each of the three assembly functions the filter is applied to the full
  module set: with an empty allow-list the server gets exactly the modules marked
  public; with a non-empty list whose names all exist it gets exactly the modules named
  in the list; with a non-empty list that names an unknown module the result is fatal
  and no server is returned.
\<close>

theorem server_assembly_exposed_modules:
  "MustNewNativeSpaceServer nativeSpaceApis rtr gashandler exposedModules option =
     (let clientProvider = NewCfxClientProvider rtr;
          allApis = nativeSpaceApis clientProvider gashandler option;
          mw = httpMiddleware DefaultRegistryCfx clientProvider
      in if exposedModules = [] then
           Started (MustNewServer nativeSpaceRpcServerName (filter Public allApis) [mw])
         else if set exposedModules \<subseteq> set (map Namespace allApis) then
           Started (MustNewServer nativeSpaceRpcServerName
                      (filter (\<lambda>a. Namespace a \<in> set exposedModules) allApis) [mw])
         else Fatal ''Failed to new native space RPC server with bad exposed modules'')
   \<and> MustNewEvmSpaceServer evmSpaceApis rtr' exposedModules option' =
     (let clientProvider = NewEthClientProvider rtr';
          mw = httpMiddleware DefaultRegistryEth clientProvider
      in case evmSpaceApis clientProvider option' of
           Inl err \<Rightarrow> Fatal ''Failed to new EVM space RPC server''
         | Inr allApis \<Rightarrow>
             if exposedModules = [] then
               Started (MustNewServer evmSpaceRpcServerName (filter Public allApis) [mw])
             else if set exposedModules \<subseteq> set (map Namespace allApis) then
               Started (MustNewServer evmSpaceRpcServerName
                          (filter (\<lambda>a. Namespace a \<in> set exposedModules) allApis) [mw])
             else Fatal ''Failed to new EVM space RPC server with bad exposed modules'')
   \<and> (MustNewNativeSpaceBridgeServer nativeSpaceBridgeApis config :: ('h, 'r) Server startup) =
     (case nativeSpaceBridgeApis (EthNode config) (CfxNode config) of
        Inl err \<Rightarrow> Fatal ''Failed to new CFX bridge RPC server''
      | Inr allApis \<Rightarrow>
          if ExposedModules config = [] then
            Started (MustNewServer nativeSpaceBridgeRpcServerName (filter Public allApis) [])
          else if set (ExposedModules config) \<subseteq> set (map Namespace allApis) then
            Started (MustNewServer nativeSpaceBridgeRpcServerName
                       (filter (\<lambda>a. Namespace a \<in> set (ExposedModules config)) allApis) [])
          else Fatal ''Failed to new CFX bridge RPC server with bad exposed modules'')"
proof -
  have native: "MustNewNativeSpaceServer nativeSpaceApis rtr gashandler exposedModules option =
     (let clientProvider = NewCfxClientProvider rtr;
          allApis = nativeSpaceApis clientProvider gashandler option;
          mw = httpMiddleware DefaultRegistryCfx clientProvider
      in if exposedModules = [] then
           Started (MustNewServer nativeSpaceRpcServerName (filter Public allApis) [mw])
         else if set exposedModules \<subseteq> set (map Namespace allApis) then
           Started (MustNewServer nativeSpaceRpcServerName
                      (filter (\<lambda>a. Namespace a \<in> set exposedModules) allApis) [mw])
         else Fatal ''Failed to new native space RPC server with bad exposed modules'')"
    by (simp add: MustNewNativeSpaceServer_def filterExposedApis_cases Let_def)
  have evm: "MustNewEvmSpaceServer evmSpaceApis rtr' exposedModules option' =
     (let clientProvider = NewEthClientProvider rtr';
          mw = httpMiddleware DefaultRegistryEth clientProvider
      in case evmSpaceApis clientProvider option' of
           Inl err \<Rightarrow> Fatal ''Failed to new EVM space RPC server''
         | Inr allApis \<Rightarrow>
             if exposedModules = [] then
               Started (MustNewServer evmSpaceRpcServerName (filter Public allApis) [mw])
             else if set exposedModules \<subseteq> set (map Namespace allApis) then
               Started (MustNewServer evmSpaceRpcServerName
                          (filter (\<lambda>a. Namespace a \<in> set exposedModules) allApis) [mw])
             else Fatal ''Failed to new EVM space RPC server with bad exposed modules'')"
    by (simp add: MustNewEvmSpaceServer_def filterExposedApis_cases Let_def split: sum.splits)
  have bridge: "(MustNewNativeSpaceBridgeServer nativeSpaceBridgeApis config :: ('h, 'r) Server startup) =
     (case nativeSpaceBridgeApis (EthNode config) (CfxNode config) of
        Inl err \<Rightarrow> Fatal ''Failed to new CFX bridge RPC server''
      | Inr allApis \<Rightarrow>
          if ExposedModules config = [] then
            Started (MustNewServer nativeSpaceBridgeRpcServerName (filter Public allApis) [])
          else if set (ExposedModules config) \<subseteq> set (map Namespace allApis) then
            Started (MustNewServer nativeSpaceBridgeRpcServerName
                       (filter (\<lambda>a. Namespace a \<in> set (ExposedModules config)) allApis) [])
          else Fatal ''Failed to new CFX bridge RPC server with bad exposed modules'')"
    by (simp add: MustNewNativeSpaceBridgeServer_def filterExposedApis_cases split: sum.splits)
  from native evm bridge show ?thesis by (rule conjI [OF _ conjI])
qed

text \<open>
  Modules \<open>cfx\<close> and \<open>txpool\<close> public, \<open>trace\<close> not: the list \<open>[cfx]\<close> exposes
  \<open>cfx\<close> only, the list \<open>[nonexistent]\<close> is fatal, the empty list exposes \<open>cfx\<close> and
  \<open>txpool\<close>.
\<close>

theorem server_assembly_exposed_modules_witness:
  "MustNewNativeSpaceServer
     (\<lambda>p g opt. [\<lparr>Namespace = ''cfx'', Service = (), Public = True\<rparr>,
                \<lparr>Namespace = ''txpool'', Service = (), Public = True\<rparr>,
                \<lparr>Namespace = ''trace'', Service = (), Public = False\<rparr>]) () () [''cfx''] ([] :: unit list)
   = Started \<lparr>server_name = ''core_space_rpc'',
              server_apis = [\<lparr>Namespace = ''cfx'', Service = (), Public = True\<rparr>],
              server_middlewares = [httpMiddleware DefaultRegistryCfx (NewCfxClientProvider ())]\<rparr>
   \<and> MustNewNativeSpaceServer
     (\<lambda>p g opt. [\<lparr>Namespace = ''cfx'', Service = (), Public = True\<rparr>,
                \<lparr>Namespace = ''txpool'', Service = (), Public = True\<rparr>,
                \<lparr>Namespace = ''trace'', Service = (), Public = False\<rparr>]) () () [''nonexistent'']
     ([] :: unit list)
   = Fatal ''Failed to new native space RPC server with bad exposed modules''
   \<and> MustNewNativeSpaceServer
     (\<lambda>p g opt. [\<lparr>Namespace = ''cfx'', Service = (), Public = True\<rparr>,
                \<lparr>Namespace = ''txpool'', Service = (), Public = True\<rparr>,
                \<lparr>Namespace = ''trace'', Service = (), Public = False\<rparr>]) () () [] ([] :: unit list)
   = Started \<lparr>server_name = ''core_space_rpc'',
              server_apis = [\<lparr>Namespace = ''cfx'', Service = (), Public = True\<rparr>,
                             \<lparr>Namespace = ''txpool'', Service = (), Public = True\<rparr>],
              server_middlewares = [httpMiddleware DefaultRegistryCfx (NewCfxClientProvider ())]\<rparr>"
proof -
  note native = server_assembly_exposed_modules [THEN conjunct1]
  show ?thesis
    by (simp add: native MustNewServer_def nativeSpaceRpcServerName_def)
qed

section \<open>Properties of the database setup and of the store\<close>

text \<open>
  The one error that is not fatal where it is seen: on a \<open>db.DB()\<close> error
  \<open>mustCreateDatabaseIfAbsent\<close> returns \<open>false\<close>.
\<close>

lemma mustCreateDatabaseIfAbsent_DB_error:
  assumes "gorm_Open (dataSourceName config []) = Inr db0" and "db_DB db0 = Some err"
  shows "mustCreateDatabaseIfAbsent gorm_Open config = Started False"
  using assms by (simp add: mustCreateDatabaseIfAbsent_def mustNewDB_def)

text \<open>The same error on the handle of the database itself is fatal.\<close>

lemma MustOpenOrCreate_DB_error_on_database_handle:
  assumes "mustCreateDatabaseIfAbsent gorm_Open config = Started False"
    and "gorm_Open (dataSourceName config (Database config)) = Inr db" and "db_DB db = Some err"
  shows "MustOpenOrCreate gorm_Open mustNewStore num rangeSize config option =
           Fatal ''Failed to init mysql db''"
  using assms by (simp add: MustOpenOrCreate_def mustNewDB_def)





lemma unat_succ_below:
  fixes i num :: "64 word"
  assumes "i < num"
  shows "unat (i + 1) = Suc (unat i)"
proof -
  from assms have "unat i < unat num" by (simp add: word_less_nat_alt)
  moreover have "unat num < 2 ^ 64" using unsigned_less [of num] by simp
  ultimately have "unat i + 1 < 2 ^ 64" by linarith
  then show ?thesis by (simp add: unat_word_ariths)
qed

lemma logsPartitionLoop_eq:
  "i \<le> num \<Longrightarrow>
     logsPartitionLoop i num rangeSize sqlLines =
       sqlLines @ map (\<lambda>k. partition_line (of_nat k) rangeSize) [unat i..<unat num]"
proof (induction i num rangeSize sqlLines rule: logsPartitionLoop.induct)
  case (1 i num rangeSize sqlLines)
  show ?case
  proof (cases "i < num")
    case True
    then have succ: "unat (i + 1) = Suc (unat i)" by (rule unat_succ_below)
    from True have lt: "unat i < unat num" by (simp add: word_less_nat_alt)
    then have le: "i + 1 \<le> num" using succ by (simp add: word_le_nat_alt)
    have "[unat i..<unat num] = unat i # [Suc (unat i)..<unat num]"
      using lt by (simp add: upt_conv_Cons)
    moreover have "logsPartitionLoop i num rangeSize sqlLines =
        logsPartitionLoop (i + 1) num rangeSize (sqlLines @ [partition_line i rangeSize])"
      using True by (simp add: logsPartitionLoop.simps [of i])
    ultimately show ?thesis
      using "1.IH" [OF True le] succ by simp
  next
    case False
    with "1.prems" have "i = num" by simp
    then show ?thesis by (simp add: logsPartitionLoop.simps [of num])
  qed
qed

lemma partition_line_no_wrap:
  fixes num rangeSize :: "64 word"
  assumes "k < unat num" and "unat num * unat rangeSize < 2 ^ 64"
  shows "partition_line (of_nat k) rangeSize =
           ''PARTITION logs'' @ fmt_nat k @ '' VALUES LESS THAN (''
             @ fmt_nat ((k + 1) * unat rangeSize) @ ''),''"
proof -
  have num: "unat num < 2 ^ 64" using unsigned_less [of num] by simp
  with assms(1) have k: "k < 2 ^ 64" by linarith
  then have uk: "unat (of_nat k :: 64 word) = k" by (simp add: unat_of_nat)
  from assms(1) num have "k + 1 < 2 ^ 64" by linarith
  with uk have uk1: "unat (of_nat k + 1 :: 64 word) = k + 1" by (simp add: unat_word_ariths)
  from assms(1) have "k + 1 \<le> unat num" by simp
  then have "(k + 1) * unat rangeSize \<le> unat num * unat rangeSize"
    by (rule mult_le_mono1)
  with assms(2) have "(k + 1) * unat rangeSize < 2 ^ 64" by linarith
  with uk1 have "unat ((of_nat k + 1) * rangeSize) = (k + 1) * unat rangeSize"
    by (simp add: unat_word_ariths)
  with uk show ?thesis by (simp add: partition_line_def fmt_uint64_def)
qed

lemma partition_line_not_overflow:
  "partition_line i rangeSize \<noteq> ''PARTITION logsow VALUES LESS THAN MAXVALUE);''"
proof
  assume "partition_line i rangeSize = ''PARTITION logsow VALUES LESS THAN MAXVALUE);''"
  then have "last (partition_line i rangeSize) = last ''PARTITION logsow VALUES LESS THAN MAXVALUE);''"
    by simp
  then show False by (simp add: partition_line_def)
qed

lemma strings_Join_snoc:
  "strings_Join (xs @ [z]) sep = concat (map (\<lambda>l. l @ sep) xs) @ z"
proof (induction xs)
  case Nil
  then show ?case by simp
next
  case (Cons x xs)
  then show ?case by (cases xs) simp_all
qed

text \<open>
  Claim C9. When \<open>LogsTablePartitionsNum * LogsTablePartitionRangeSize\<close> fits in
  \<open>uint64\<close>, the lines of the statement are: the header that partitions \<open>logs\<close> by
  range of \<open>id\<close>; for each \<open>k\<close> from 0 below the number of partitions, in order, the
  partition \<open>logs\<close>\<open>k\<close> bounded by \<open>(k + 1)\<close> times the range size; and last the
  overflow partition bounded by \<open>MAXVALUE\<close>, which occurs exactly once. The statement
  executed on the handle is the text of these lines, each but the last followed by a
  newline.
\<close>

theorem initLogsPartitions_statement:
  assumes "unat num * unat rangeSize < 2 ^ 64"
  shows "logsPartitionSqlLines num rangeSize =
           ''ALTER TABLE logs PARTITION BY RANGE (id)(''
           # map (\<lambda>k. ''PARTITION logs'' @ fmt_nat k @ '' VALUES LESS THAN (''
                          @ fmt_nat ((k + 1) * unat rangeSize) @ ''),'') [0..<unat num]
           @ [''PARTITION logsow VALUES LESS THAN MAXVALUE);'']
       \<and> length (logsPartitionSqlLines num rangeSize) = unat num + 2
       \<and> filter (\<lambda>l. l = ''PARTITION logsow VALUES LESS THAN MAXVALUE);'')
            (logsPartitionSqlLines num rangeSize) = [''PARTITION logsow VALUES LESS THAN MAXVALUE);'']
       \<and> initLogsPartitions num rangeSize db =
            db_Exec db
              (''ALTER TABLE logs PARTITION BY RANGE (id)('' @ [CHR 0x0A]
               @ concat (map (\<lambda>k. ''PARTITION logs'' @ fmt_nat k @ '' VALUES LESS THAN (''
                                    @ fmt_nat ((k + 1) * unat rangeSize) @ ''),'' @ [CHR 0x0A])
                           [0..<unat num])
               @ ''PARTITION logsow VALUES LESS THAN MAXVALUE);'')"
proof -
  have lines: "logsPartitionSqlLines num rangeSize =
      ''ALTER TABLE logs PARTITION BY RANGE (id)(''
      # map (\<lambda>k. partition_line (of_nat k) rangeSize) [0..<unat num]
      @ [''PARTITION logsow VALUES LESS THAN MAXVALUE);'']"
    by (simp add: logsPartitionSqlLines_def logsPartitionLoop_eq)
  have "map (\<lambda>k. partition_line (of_nat k) rangeSize) [0..<unat num] =
      map (\<lambda>k. ''PARTITION logs'' @ fmt_nat k @ '' VALUES LESS THAN (''
                   @ fmt_nat ((k + 1) * unat rangeSize) @ ''),'') [0..<unat num]"
    by (rule map_cong [OF refl]) (simp add: partition_line_no_wrap [OF _ assms])
  with lines have first: "logsPartitionSqlLines num rangeSize =
      ''ALTER TABLE logs PARTITION BY RANGE (id)(''
      # map (\<lambda>k. ''PARTITION logs'' @ fmt_nat k @ '' VALUES LESS THAN (''
                     @ fmt_nat ((k + 1) * unat rangeSize) @ ''),'') [0..<unat num]
      @ [''PARTITION logsow VALUES LESS THAN MAXVALUE);'']"
    by simp
  have len: "length (logsPartitionSqlLines num rangeSize) = unat num + 2"
    by (simp add: lines)
  have "filter (\<lambda>l. l = ''PARTITION logsow VALUES LESS THAN MAXVALUE);'')
          (map (\<lambda>k. partition_line (of_nat k) rangeSize) [0..<unat num]) = []"
    by (simp add: filter_empty_conv partition_line_not_overflow)
  then have one: "filter (\<lambda>l. l = ''PARTITION logsow VALUES LESS THAN MAXVALUE);'')
      (logsPartitionSqlLines num rangeSize) = [''PARTITION logsow VALUES LESS THAN MAXVALUE);'']"
    by (simp add: lines)
  let ?line = "\<lambda>k. ''PARTITION logs'' @ fmt_nat k @ '' VALUES LESS THAN (''
                   @ fmt_nat ((k + 1) * unat rangeSize) @ ''),''"
  have "strings_Join (logsPartitionSqlLines num rangeSize) [CHR 0x0A] =
      concat (map (\<lambda>l. l @ [CHR 0x0A])
                (''ALTER TABLE logs PARTITION BY RANGE (id)('' # map ?line [0..<unat num]))
      @ ''PARTITION logsow VALUES LESS THAN MAXVALUE);''"
    unfolding first
    using strings_Join_snoc
      [of "''ALTER TABLE logs PARTITION BY RANGE (id)('' # map ?line [0..<unat num]"
          "''PARTITION logsow VALUES LESS THAN MAXVALUE);''" "[CHR 0x0A]"]
    by simp
  then have joined: "strings_Join (logsPartitionSqlLines num rangeSize) [CHR 0x0A] =
      ''ALTER TABLE logs PARTITION BY RANGE (id)('' @ [CHR 0x0A]
      @ concat (map (\<lambda>k. ?line k @ [CHR 0x0A]) [0..<unat num])
      @ ''PARTITION logsow VALUES LESS THAN MAXVALUE);''"
    by (simp add: o_def)
  have exec: "initLogsPartitions num rangeSize db =
      db_Exec db
        (''ALTER TABLE logs PARTITION BY RANGE (id)('' @ [CHR 0x0A]
         @ concat (map (\<lambda>k. ''PARTITION logs'' @ fmt_nat k @ '' VALUES LESS THAN (''
                              @ fmt_nat ((k + 1) * unat rangeSize) @ ''),'' @ [CHR 0x0A])
                     [0..<unat num])
         @ ''PARTITION logsow VALUES LESS THAN MAXVALUE);'')"
    unfolding initLogsPartitions_def Let_def joined by simp
  show ?thesis by (rule conjI [OF first conjI [OF len conjI [OF one exec]]])
qed

text \<open>Two partitions of twenty million rows, on a handle that answers with the statement it is given.\<close>

theorem initLogsPartitions_statement_witness:
  "logsPartitionSqlLines 2 20000000 =
     [''ALTER TABLE logs PARTITION BY RANGE (id)('',
      ''PARTITION logs0 VALUES LESS THAN (20000000),'',
      ''PARTITION logs1 VALUES LESS THAN (40000000),'',
      ''PARTITION logsow VALUES LESS THAN MAXVALUE);'']
   \<and> initLogsPartitions 2 20000000
       \<lparr>db_DB = None, db_Rows = (\<lambda>q. Inr True), db_Exec = (\<lambda>q. Some (ErrorsNew q)),
         db_CreateTable = None\<rparr>
     = Some (ErrorsNew
         (''ALTER TABLE logs PARTITION BY RANGE (id)('' @ [CHR 0x0A]
          @ ''PARTITION logs0 VALUES LESS THAN (20000000),'' @ [CHR 0x0A]
          @ ''PARTITION logs1 VALUES LESS THAN (40000000),'' @ [CHR 0x0A]
          @ ''PARTITION logsow VALUES LESS THAN MAXVALUE);''))"
proof -
  let ?db = "\<lparr>db_DB = None, db_Rows = (\<lambda>q. Inr True), db_Exec = (\<lambda>q. Some (ErrorsNew q)),
               db_CreateTable = None\<rparr>"
  have no_wrap: "unat (2 :: 64 word) * unat (20000000 :: 64 word) < 2 ^ 64" by simp
  note stmt = initLogsPartitions_statement [OF no_wrap, of ?db]
  have sizes: "unat (2 :: 64 word) = 2" "unat (20000000 :: 64 word) = 20000000" by simp_all
  have upto: "[0..<2] = [0, 1 :: nat]" by (simp add: upt_conv_Cons)
  have digits: "fmt_nat 0 = ''0''" "fmt_nat (Suc 0) = ''1''"
      "fmt_nat 20000000 = ''20000000''" "fmt_nat 40000000 = ''40000000''"
    by (simp_all add: fmt_nat.simps digit_char_def)
  have lines: "logsPartitionSqlLines 2 20000000 =
      [''ALTER TABLE logs PARTITION BY RANGE (id)('',
       ''PARTITION logs0 VALUES LESS THAN (20000000),'',
       ''PARTITION logs1 VALUES LESS THAN (40000000),'',
       ''PARTITION logsow VALUES LESS THAN MAXVALUE);'']"
    using stmt [THEN conjunct1] unfolding sizes upto by (simp add: digits)
  have exec: "initLogsPartitions 2 20000000 ?db
     = Some (ErrorsNew
         (''ALTER TABLE logs PARTITION BY RANGE (id)('' @ [CHR 0x0A]
          @ ''PARTITION logs0 VALUES LESS THAN (20000000),'' @ [CHR 0x0A]
          @ ''PARTITION logs1 VALUES LESS THAN (40000000),'' @ [CHR 0x0A]
          @ ''PARTITION logsow VALUES LESS THAN MAXVALUE);''))"
    using stmt [THEN conjunct2, THEN conjunct2, THEN conjunct2] unfolding sizes upto
    by (simp add: digits)
  from lines exec show ?thesis by (rule conjI)
qed

lemma Pushn_loop_panics:
  "\<exists>d\<in>set ds. Blocks d = [] \<Longrightarrow> Pushn_loop G bn hs ds acc = Panic"
  by (induction ds arbitrary: acc) (auto split: option.splits list.splits)

lemma Pushn_loop_returns:
  "\<forall>d\<in>set ds. Blocks d \<noteq> [] \<and> G d \<noteq> None \<Longrightarrow>
     \<exists>ms. Pushn_loop G bn hs ds acc = Return (acc @ ms)
        \<and> list_all2 (\<lambda>d m. \<exists>b0 bs pivotBlock. Blocks d = b0 # bs \<and> G d = Some pivotBlock
              \<and> m = \<lparr>ID = 0, Epoch = Number d, BnMin = bn b0, BnMax = bn pivotBlock,
                      PivotHash = hs pivotBlock\<rparr>) ds ms"
proof (induction ds arbitrary: acc)
  case Nil
  then show ?case by simp
next
  case (Cons d ds)
  from Cons.prems obtain b0 bs pivotBlock where d: "Blocks d = b0 # bs" "G d = Some pivotBlock"
    by (cases "Blocks d") auto
  let ?m = "\<lparr>ID = 0, Epoch = Number d, BnMin = bn b0, BnMax = bn pivotBlock,
              PivotHash = hs pivotBlock\<rparr>"
  from Cons.prems have "\<forall>d\<in>set ds. Blocks d \<noteq> [] \<and> G d \<noteq> None" by simp
  from Cons.IH [OF this, of "acc @ [?m]"] obtain ms where
    ms: "Pushn_loop G bn hs ds (acc @ [?m]) = Return ((acc @ [?m]) @ ms)"
      "list_all2 (\<lambda>d m. \<exists>b0 bs pivotBlock. Blocks d = b0 # bs \<and> G d = Some pivotBlock
              \<and> m = \<lparr>ID = 0, Epoch = Number d, BnMin = bn b0, BnMax = bn pivotBlock,
                      PivotHash = hs pivotBlock\<rparr>) ds ms"
    by blast
  have "Pushn_loop G bn hs (d # ds) acc = Return (acc @ (?m # ms))"
    using d ms(1) by simp
  moreover have "list_all2 (\<lambda>d m. \<exists>b0 bs pivotBlock. Blocks d = b0 # bs \<and> G d = Some pivotBlock
              \<and> m = \<lparr>ID = 0, Epoch = Number d, BnMin = bn b0, BnMax = bn pivotBlock,
                      PivotHash = hs pivotBlock\<rparr>) (d # ds) (?m # ms)"
    using d ms(2) by simp
  ultimately show ?case by blast
qed

text \<open>
  Claim C10. On the empty slice \<open>Pushn\<close> returns nil and writes nothing. If some
  element has no blocks, \<open>Pushn\<close> panics. On a non-empty slice whose elements all have
  a block (and for which \<open>GetPivotBlock\<close> gives a block), \<open>Pushn\<close> makes one write, of
  one mapping per element in order, with the epoch number, the number of the first
  block, the number of the pivot block and the hash of the pivot block.
\<close>

theorem Pushn_mappings:
  "Pushn G bn hs create [] = Return (None, [])
   \<and> ((\<exists>d\<in>set ds. Blocks d = []) \<longrightarrow> Pushn G bn hs create ds = Panic)
   \<and> (ds \<noteq> [] \<and> (\<forall>d\<in>set ds. Blocks d \<noteq> [] \<and> G d \<noteq> None) \<longrightarrow>
        (\<exists>ms. Pushn G bn hs create ds = Return (create ms 1000, [(ms, 1000)])
           \<and> list_all2 (\<lambda>d m. \<exists>b0 bs pivotBlock. Blocks d = b0 # bs \<and> G d = Some pivotBlock
                \<and> m = \<lparr>ID = 0, Epoch = Number d, BnMin = bn b0, BnMax = bn pivotBlock,
                        PivotHash = hs pivotBlock\<rparr>) ds ms))"
proof -
  have empty: "Pushn G bn hs create [] = Return (None, [])"
    by (simp add: Pushn_def)
  have panic: "Pushn G bn hs create ds = Panic" if "\<exists>d\<in>set ds. Blocks d = []"
    using Pushn_loop_panics [OF that, of G bn hs "[]"] by (simp add: Pushn_def)
  have built: "\<exists>ms. Pushn G bn hs create ds = Return (create ms 1000, [(ms, 1000)])
           \<and> list_all2 (\<lambda>d m. \<exists>b0 bs pivotBlock. Blocks d = b0 # bs \<and> G d = Some pivotBlock
                \<and> m = \<lparr>ID = 0, Epoch = Number d, BnMin = bn b0, BnMax = bn pivotBlock,
                        PivotHash = hs pivotBlock\<rparr>) ds ms"
    if "ds \<noteq> []" and "\<forall>d\<in>set ds. Blocks d \<noteq> [] \<and> G d \<noteq> None"
  proof -
    from Pushn_loop_returns [OF that(2), of bn hs "[]"] obtain ms where
      ms: "Pushn_loop G bn hs ds [] = Return ms"
        "list_all2 (\<lambda>d m. \<exists>b0 bs pivotBlock. Blocks d = b0 # bs \<and> G d = Some pivotBlock
                \<and> m = \<lparr>ID = 0, Epoch = Number d, BnMin = bn b0, BnMax = bn pivotBlock,
                        PivotHash = hs pivotBlock\<rparr>) ds ms"
      by auto
    from ms(2) have "length ms = length ds" by (simp add: list_all2_lengthD)
    with that(1) have "length ms \<noteq> 0" by simp
    with ms show ?thesis by (auto simp: Pushn_def defaultBatchSizeMappingInsert_def)
  qed
  from empty panic built show ?thesis by blast
qed

text \<open>An epoch with no blocks, and an epoch of two blocks whose pivot is the last one.\<close>

theorem Pushn_mappings_witness:
  "Pushn (\<lambda>d. case rev (Blocks d) of [] \<Rightarrow> None | b # bs \<Rightarrow> Some b) (\<lambda>b. of_nat (fst b)) snd
     (\<lambda>ms n. None) [\<lparr>Number = 8, Blocks = ([] :: (nat \<times> string) list)\<rparr>] = Panic
   \<and> Pushn (\<lambda>d. case rev (Blocks d) of [] \<Rightarrow> None | b # bs \<Rightarrow> Some b) (\<lambda>b. of_nat (fst b)) snd
     (\<lambda>ms n. None) [\<lparr>Number = 7, Blocks = [(20 :: nat, ''0xaa''), (21, ''0xbb'')]\<rparr>]
     = Return (None, [([\<lparr>ID = 0, Epoch = 7, BnMin = 20, BnMax = 21, PivotHash = ''0xbb''\<rparr>], 1000)])"
proof -
  let ?G = "\<lambda>d :: (nat \<times> string) EpochData. case rev (Blocks d) of [] \<Rightarrow> None | b # bs \<Rightarrow> Some b"
  let ?bn = "\<lambda>b :: nat \<times> string. of_nat (fst b) :: 64 word"
  let ?hs = "snd :: nat \<times> string \<Rightarrow> string"
  let ?create = "\<lambda>(ms :: epochBlockMap list) (n :: nat). None :: error option"
  let ?bad = "[\<lparr>Number = 8, Blocks = ([] :: (nat \<times> string) list)\<rparr>]"
  let ?good = "[\<lparr>Number = 7, Blocks = [(20 :: nat, ''0xaa''), (21, ''0xbb'')]\<rparr>]"
  note bad = Pushn_mappings [of ?G ?bn ?hs ?create ?bad, THEN conjunct2, THEN conjunct1]
  note good = Pushn_mappings [of ?G ?bn ?hs ?create ?good, THEN conjunct2, THEN conjunct2]
  have "\<exists>d\<in>set ?bad. Blocks d = []" by simp
  with bad have panics: "Pushn ?G ?bn ?hs ?create ?bad = Panic" by blast
  have "?good \<noteq> [] \<and> (\<forall>d\<in>set ?good. Blocks d \<noteq> [] \<and> ?G d \<noteq> None)" by simp
  with good obtain ms where
    ms: "Pushn ?G ?bn ?hs ?create ?good = Return (None, [(ms, 1000)])"
      "list_all2 (\<lambda>d m. \<exists>b0 bs pivotBlock. Blocks d = b0 # bs \<and> ?G d = Some pivotBlock
          \<and> m = \<lparr>ID = 0, Epoch = Number d, BnMin = ?bn b0, BnMax = ?bn pivotBlock,
                  PivotHash = ?hs pivotBlock\<rparr>) ?good ms"
    by blast
  from ms(2) have "ms = [\<lparr>ID = 0, Epoch = 7, BnMin = 20, BnMax = 21, PivotHash = ''0xbb''\<rparr>]"
    by (auto simp: list_all2_Cons1)
  with ms(1) panics show ?thesis by simp
qed

end
